theory Spec2Isabelle
  imports Complex_Main "HOL-Library.Word"
begin

unbundle bit_operations_syntax

section \<open>JavaScript values and operators\<close>

text \<open>
  The JavaScript values the driver stores in its state cache. Numbers that take part in
  bit operations are integers; \<open>JNaN\<close> is the number NaN.
\<close>

datatype jsval = JUndefined | JBool bool | JNum int | JNaN

fun truthy :: "jsval \<Rightarrow> bool" where
  "truthy JUndefined = False"
| "truthy (JBool b) = b"
| "truthy (JNum n) = (n \<noteq> 0)"
| "truthy JNaN = False"

text \<open>ToNumber; \<open>None\<close> stands for NaN.\<close>

fun to_number :: "jsval \<Rightarrow> int option" where
  "to_number JUndefined = None"
| "to_number (JBool b) = Some (if b then 1 else 0)"
| "to_number (JNum n) = Some n"
| "to_number JNaN = None"

text \<open>ToInt32: NaN becomes 0, an integer is wrapped into the signed 32-bit range.\<close>

definition to_int32 :: "jsval \<Rightarrow> int" where
  "to_int32 v = (case to_number v of None \<Rightarrow> 0 | Some n \<Rightarrow> signed_take_bit 31 n)"

text \<open>The operators \<open><<\<close>, \<open>>>\<close>, \<open>&\<close> and \<open>+\<close>. Shift counts in the source are below 32.\<close>

definition js_shl :: "jsval \<Rightarrow> nat \<Rightarrow> jsval" where
  "js_shl a k = JNum (signed_take_bit 31 (push_bit (k mod 32) (to_int32 a)))"

definition js_sar :: "jsval \<Rightarrow> nat \<Rightarrow> jsval" where
  "js_sar a k = JNum (drop_bit (k mod 32) (to_int32 a))"

definition js_and :: "jsval \<Rightarrow> jsval \<Rightarrow> jsval" where
  "js_and a b = JNum (to_int32 a AND to_int32 b)"

definition js_add :: "jsval \<Rightarrow> jsval \<Rightarrow> jsval" where
  "js_add a b =
     (case (to_number a, to_number b) of
        (Some x, Some y) \<Rightarrow> JNum (x + y)
      | _ \<Rightarrow> JNaN)"

text \<open>
  \<open>a[i] = v\<close> on an ordinary array: in range it replaces the element, beyond the end the
  array grows and the gap reads as undefined.
\<close>

definition js_array_set :: "jsval list \<Rightarrow> nat \<Rightarrow> jsval \<Rightarrow> jsval list" where
  "js_array_set xs i v =
     (if i < length xs then xs[i := v]
      else xs @ replicate (i - length xs) JUndefined @ [v])"

type_synonym byte = "8 word"

text \<open>\<open>buf[i]\<close> on a byte buffer: a number in 0..255, or undefined out of range.\<close>

definition buf_get :: "byte list \<Rightarrow> nat \<Rightarrow> jsval" where
  "buf_get buf i = (if i < length buf then JNum (uint (buf ! i)) else JUndefined)"

datatype js_error = Error string | TypeError string

section \<open>The board driver (PololuAstarBoard)\<close>

record buttons_t =
  buttonA :: jsval
  buttonB :: jsval
  buttonC :: jsval

record leds_t =
  red :: jsval
  green :: jsval
  yellow :: jsval

record board_state =
  buttons :: buttons_t
  battMV :: jsval
  leds :: leds_t
  motors :: "jsval list"
  digitalIn :: "jsval list"
  digitalOut :: "jsval list"
  analogIn :: "jsval list"

text \<open>
  Calls made on the bus transport \<open>d_i2c\<close>, in the order they happen. The payload of
  \<open>writeSync\<close> is whatever \<open>d_outBuf\<close> holds, possibly undefined.
\<close>

datatype bus_op =
    ReadSync nat nat nat
  | WriteSync nat nat "byte list option"
  | WriteByteSync nat nat jsval
  | WriteWordSync nat int int

text \<open>
  The driver object. \<open>d_hasNewData\<close> is unset (falsy) until the first buffered write.
  \<open>bus\<close> is the trace of transport calls; \<open>timeouts\<close> holds the delay of every
  \<open>setTimeout(flushWrite, _)\<close> callback that is scheduled and has not run yet.
  \<open>Buffer.from\<close> copies, so \<open>d_outBuf\<close> never aliases \<open>d_lastBuf\<close>.
  A transport call returns normally here; a fault thrown by the transport itself is not
  part of the model.
\<close>

record board =
  d_addr :: nat
  d_boardState :: board_state
  d_lastBuf :: "byte list option"
  d_outBuf :: "byte list option"
  d_hasNewData :: bool
  bus :: "bus_op list"
  timeouts :: "nat list"

definition initial_boardState :: board_state where
  "initial_boardState =
     \<lparr> buttons = \<lparr> buttonA = JBool False, buttonB = JBool False, buttonC = JBool False \<rparr>,
       battMV = JNum 0,
       leds = \<lparr> red = JBool False, green = JBool False, yellow = JBool False \<rparr>,
       motors = [JNum 0, JNum 0],
       digitalIn = replicate 6 (JBool False),
       digitalOut = replicate 6 (JBool False),
       analogIn = replicate 5 (JNum 0) \<rparr>"

definition new_board :: "nat \<Rightarrow> board" where
  "new_board addr =
     \<lparr> d_addr = addr, d_boardState = initial_boardState, d_lastBuf = None,
       d_outBuf = None, d_hasNewData = False, bus = [], timeouts = [] \<rparr>"

text \<open>The analog word of index \<open>i\<close>: \<open>(buf[byteStart] << 8) + buf[byteStart + 1]\<close>.\<close>

definition ainVal :: "byte list \<Rightarrow> nat \<Rightarrow> jsval" where
  "ainVal buf i =
     (let byteStart = 5 + i * 2
      in js_add (js_shl (buf_get buf byteStart) 8) (buf_get buf (byteStart + 1)))"

text \<open>
  \<open>getBoardStatus\<close>, with \<open>buf\<close> the block that \<open>readSync(d_addr, 0, 23)\<close> returned.
\<close>

definition getBoardStatus :: "board \<Rightarrow> byte list \<Rightarrow> board" where
  "getBoardStatus s buf =
     (let buttonVals = buf_get buf 3;
          dinVals = buf_get buf 4;
          st0 = d_boardState s;
          st1 = st0\<lparr> analogIn :=
                  foldl (\<lambda>a i. js_array_set a i (ainVal buf i)) (analogIn st0) [0..<5] \<rparr>;
          battMV' = js_add (js_shl (buf_get buf 15) 8) (buf_get buf 16);
          st2 = st1\<lparr> buttons :=
                  (buttons st1)\<lparr> buttonA := js_and buttonVals (JNum 1),
                                  buttonB := js_and (js_sar buttonVals 1) (JNum 1),
                                  buttonC := js_and (js_sar buttonVals 2) (JNum 1) \<rparr> \<rparr>;
          st3 = st2\<lparr> digitalIn :=
                  foldl (\<lambda>d i. js_array_set d i (js_and (js_sar dinVals i) (JNum 1)))
                        (digitalIn st2) [0..<6] \<rparr>;
          st4 = st3\<lparr> battMV := battMV' \<rparr>
      in s\<lparr> bus := bus s @ [ReadSync (d_addr s) 0 23],
            d_lastBuf := Some buf,
            d_outBuf := Some buf,
            d_boardState := st4 \<rparr>)"

subsection \<open>Buffered writes\<close>

definition flushWrite :: "board \<Rightarrow> js_error + board" where
  "flushWrite s =
     (if \<not> d_hasNewData s then Inr s
      else
        let s1 = s\<lparr> bus := bus s @ [WriteSync (d_addr s) 0 (d_outBuf s)] \<rparr>
        in case d_lastBuf s1 of
             None \<Rightarrow> Inl (TypeError ''Buffer.from: the first argument is undefined'')
           | Some lb \<Rightarrow> Inr (s1\<lparr> d_outBuf := Some lb \<rparr>))"

definition setupWrite :: "board \<Rightarrow> js_error + board" where
  "setupWrite s =
     (case (if d_outBuf s = None
            then (case d_lastBuf s of
                    None \<Rightarrow> Inl (TypeError ''Buffer.from: the first argument is undefined'')
                  | Some lb \<Rightarrow> Inr (s\<lparr> d_outBuf := Some lb \<rparr>))
            else Inr s) of
        Inl e \<Rightarrow> Inl e
      | Inr s1 \<Rightarrow>
          let s2 = (if \<not> d_hasNewData s1 then s1\<lparr> timeouts := timeouts s1 @ [25] \<rparr> else s1)
          in Inr (s2\<lparr> d_hasNewData := True \<rparr>))"

text \<open>
  Stores into the pending buffer. An index outside the buffer is ignored, as a typed
  array does; a stored number is reduced to its low eight bits.
\<close>

definition put_byte :: "byte list \<Rightarrow> nat \<Rightarrow> int \<Rightarrow> byte list" where
  "put_byte b register v = b[register := word_of_int v]"

definition put_word :: "byte list \<Rightarrow> nat \<Rightarrow> int \<Rightarrow> byte list" where
  "put_word b register w =
     (let hi = to_int32 (js_and (js_sar (JNum w) 8) (JNum 255));
          lo = to_int32 (js_and (JNum w) (JNum 255))
      in (b[register := word_of_int hi])[register + 1 := word_of_int lo])"

fun put_buffer :: "byte list \<Rightarrow> nat \<Rightarrow> byte list \<Rightarrow> byte list" where
  "put_buffer b register [] = b"
| "put_buffer b register (x # xs) = put_buffer (b[register := x]) (Suc register) xs"

definition writeByte :: "board \<Rightarrow> nat \<Rightarrow> int \<Rightarrow> js_error + board" where
  "writeByte s register v =
     (case setupWrite s of
        Inl e \<Rightarrow> Inl e
      | Inr s1 \<Rightarrow> Inr (s1\<lparr> d_outBuf := map_option (\<lambda>b. put_byte b register v) (d_outBuf s1) \<rparr>))"

definition writeWord :: "board \<Rightarrow> nat \<Rightarrow> int \<Rightarrow> js_error + board" where
  "writeWord s register w =
     (case setupWrite s of
        Inl e \<Rightarrow> Inl e
      | Inr s1 \<Rightarrow> Inr (s1\<lparr> d_outBuf := map_option (\<lambda>b. put_word b register w) (d_outBuf s1) \<rparr>))"

definition writeBuffer :: "board \<Rightarrow> nat \<Rightarrow> byte list \<Rightarrow> js_error + board" where
  "writeBuffer s register buffer =
     (case setupWrite s of
        Inl e \<Rightarrow> Inl e
      | Inr s1 \<Rightarrow>
          Inr (s1\<lparr> d_outBuf := map_option (\<lambda>b. put_buffer b register buffer) (d_outBuf s1) \<rparr>))"

text \<open>
  What the scheduler can make happen to a driver: a buffered write is called, the poll
  interval fires with the block the bus returns, or the oldest pending timeout fires.
\<close>

datatype buffered_write = WriteByte nat int | WriteWord nat int | WriteBuffer nat "byte list"

datatype event = Write buffered_write | Poll "byte list" | Fire


fun do_write :: "board \<Rightarrow> buffered_write \<Rightarrow> js_error + board" where
  "do_write s (WriteByte r v) = writeByte s r v"
| "do_write s (WriteWord r w) = writeWord s r w"
| "do_write s (WriteBuffer r xs) = writeBuffer s r xs"

fun step :: "board \<Rightarrow> event \<Rightarrow> js_error + board" where
  "step s (Write w) = do_write s w"
| "step s (Poll buf) = Inr (getBoardStatus s buf)"
| "step s Fire =
     (case timeouts s of
        [] \<Rightarrow> Inr s
      | t # ts \<Rightarrow> flushWrite (s\<lparr> timeouts := ts \<rparr>))"

fun run :: "board \<Rightarrow> event list \<Rightarrow> js_error + board" where
  "run s [] = Inr s"
| "run s (e # es) = (case step s e of Inl x \<Rightarrow> Inl x | Inr s1 \<Rightarrow> run s1 es)"

subsection \<open>Direct writes\<close>

text \<open>
  Modelled from the spec: \<open>Constants.PinModes\<close> (constants.js is not among the sources).
  The recognized pin modes are INPUT, INPUT_PULLUP and OUTPUT; any other value a caller
  passes is \<open>Unrecognized\<close>.
\<close>

datatype pin_mode = INPUT | INPUT_PULLUP | OUTPUT | Unrecognized string

definition js_or :: "jsval \<Rightarrow> jsval \<Rightarrow> jsval" where
  "js_or a b = JNum (to_int32 a OR to_int32 b)"

definition newSetting :: "pin_mode \<Rightarrow> jsval" where
  "newSetting mode =
     (case mode of
        INPUT \<Rightarrow> js_or (JNum 4) (JNum 1)
      | INPUT_PULLUP \<Rightarrow> js_or (JNum 4) (JNum 2)
      | OUTPUT \<Rightarrow> js_or (JNum 4) (JNum 0)
      | Unrecognized _ \<Rightarrow> JNum 4)"

definition outByte :: "nat \<Rightarrow> jsval \<Rightarrow> jsval \<Rightarrow> jsval" where
  "outByte channel setting configByte =
     (if channel mod 2 = 0
      then js_or (js_and (js_shl setting 4) (JNum 240)) (js_and configByte (JNum 15))
      else js_or (js_and configByte (JNum 240)) (js_and setting (JNum 15)))"

definition configurePin :: "board \<Rightarrow> nat \<Rightarrow> pin_mode \<Rightarrow> js_error + board" where
  "configurePin s channel mode =
     (let configByteIdx = channel div 2
      in case d_lastBuf s of
           None \<Rightarrow> Inl (TypeError ''Cannot read properties of undefined'')
         | Some lb \<Rightarrow>
             Inr (s\<lparr> bus := bus s @
                    [WriteByteSync (d_addr s) configByteIdx
                       (outByte channel (newSetting mode) (buf_get lb configByteIdx))] \<rparr>))"



section \<open>The port router (Robot)\<close>

subsection \<open>Plain objects used as dictionaries\<close>

text \<open>
  \<open>d_interfaces\<close>, \<open>d_devices\<close> and \<open>d_portDeviceMaps\<close> start as \<open>{}\<close>: a list of own
  properties in insertion order, on top of the members every object inherits from
  \<open>Object.prototype\<close>. \<open>obj[k]\<close> finds an own property, else an inherited member, else
  it is undefined.
\<close>

type_synonym 'a js_object = "(string \<times> 'a) list"

definition object_prototype_keys :: "string list" where
  "object_prototype_keys =
     [''constructor'', ''__defineGetter__'', ''__defineSetter__'', ''hasOwnProperty'',
      ''__lookupGetter__'', ''__lookupSetter__'', ''isPrototypeOf'',
      ''propertyIsEnumerable'', ''toString'', ''valueOf'', ''__proto__'',
      ''toLocaleString'']"

datatype 'a lookup = Own 'a | Inherited string | Missing

definition js_get :: "'a js_object \<Rightarrow> string \<Rightarrow> 'a lookup" where
  "js_get obj k =
     (case map_of obj k of
        Some v \<Rightarrow> Own v
      | None \<Rightarrow> if k \<in> set object_prototype_keys then Inherited k else Missing)"

text \<open>
  \<open>obj[k] = v\<close>: an own property keeps its place, a new one goes last. Assigning to
  \<open>__proto__\<close> creates no own property.
\<close>

definition js_put :: "'a js_object \<Rightarrow> string \<Rightarrow> 'a \<Rightarrow> 'a js_object" where
  "js_put obj k v =
     (if k = ''__proto__'' then obj
      else if k \<in> fst ` set obj then map (\<lambda>(k', v'). if k' = k then (k', v) else (k', v')) obj
      else obj @ [(k, v)])"

subsection \<open>Configuration and state\<close>

type_synonym ctor = string
type_synonym iface = string

record interface_spec =
  iface_type :: string
  iface_id :: string
  iface_implementation :: iface

record device_spec =
  spec_id :: string
  spec_type :: string
  spec_interfaceId :: string
  spec_implementation :: "ctor option"
  spec_config :: string

record mapInfo =
  mapInfo_deviceId :: string
  mapInfo_devicePortType :: string
  mapInfo_devicePort :: nat
  mapInfo_direction :: "string option"

text \<open>
  \<open>portMap\<close> is given by the (name, mapInfo) pairs in the order in which
  \<open>for (var portName in portMap)\<close> visits them. An absent \<open>interfaces\<close> or
  \<open>devices\<close> key is \<open>None\<close>.
\<close>

record robotConfig =
  interfaces :: "interface_spec list option"
  devices :: "device_spec list option"
  portMap :: "(string \<times> mapInfo) list"

text \<open>
  A device instance: the constructor that made it, its id, its interface, its config.
  What the constructor does inside \<open>new deviceImpl(...)\<close> belongs to the device.
\<close>

datatype device = Device ctor string "iface lookup" string

record port_entry =
  device :: "device lookup"
  devicePortType :: string
  devicePort :: nat
  direction :: "string option"

text \<open>
  Method calls the router makes on a device object, in order. What the device does in
  the call belongs to the device.
\<close>

datatype dev_call =
    DevEnable device
  | DevDisable device
  | DevConfigurePin device nat pin_mode
  | DevWrite device string nat jsval
  | DevRead device string nat

record robot =
  d_config :: robotConfig
  d_interfaces :: "iface js_object"
  d_devices :: "device js_object"
  d_portDeviceMaps :: "port_entry js_object"
  d_ready :: bool
  d_enabled :: bool
  calls :: "dev_call list"

subsection \<open>Construction\<close>

text \<open>
  The loop of \<open>setupInterfaces\<close>. The check against \<open>InterfaceTypes\<close> has an empty
  body; an id that already reads as something, own or inherited, is skipped with a
  warning.
\<close>

fun setupInterfaces_loop :: "interface_spec list \<Rightarrow> robot \<Rightarrow> robot" where
  "setupInterfaces_loop [] r = r"
| "setupInterfaces_loop (ifaceSpec # rest) r =
     (case js_get (d_interfaces r) (iface_id ifaceSpec) of
        Missing \<Rightarrow>
          setupInterfaces_loop rest
            (r\<lparr> d_interfaces :=
                 js_put (d_interfaces r) (iface_id ifaceSpec) (iface_implementation ifaceSpec) \<rparr>)
      | _ \<Rightarrow> setupInterfaces_loop rest r)"

definition setupInterfaces :: "robot \<Rightarrow> robot" where
  "setupInterfaces r =
     (case interfaces (d_config r) of
        None \<Rightarrow> r
      | Some interfaceList \<Rightarrow> setupInterfaces_loop interfaceList r)"

definition getInterface :: "robot \<Rightarrow> string \<Rightarrow> iface lookup" where
  "getInterface r ident = js_get (d_interfaces r) ident"

text \<open>
  The first loop of \<open>setupDevices\<close>. \<open>builtin\<close> is the table \<open>BuiltinDeviceTypes\<close>
  (device-types.js is not among the sources): the constructor it holds under a type
  name, if any.
\<close>

fun setupDevices_devices ::
  "(string \<Rightarrow> ctor option) \<Rightarrow> device_spec list \<Rightarrow> robot \<Rightarrow> js_error + robot" where
  "setupDevices_devices builtin [] r = Inr r"
| "setupDevices_devices builtin (deviceSpec # rest) r =
     (let deviceImpl = (case builtin (spec_type deviceSpec) of
                          Some c \<Rightarrow> Some c
                        | None \<Rightarrow> spec_implementation deviceSpec)
      in case deviceImpl of
           None \<Rightarrow> Inl (TypeError ''deviceImpl is not a constructor'')
         | Some c \<Rightarrow>
             setupDevices_devices builtin rest
               (r\<lparr> d_devices :=
                    js_put (d_devices r) (spec_id deviceSpec)
                      (Device c (spec_id deviceSpec)
                         (getInterface r (spec_interfaceId deviceSpec))
                         (spec_config deviceSpec)) \<rparr>))"

text \<open>The second loop of \<open>setupDevices\<close>: one port-map entry per visited name.\<close>

fun setupDevices_ports :: "(string \<times> mapInfo) list \<Rightarrow> robot \<Rightarrow> js_error + robot" where
  "setupDevices_ports [] r = Inr r"
| "setupDevices_ports ((portName, info) # rest) r =
     (if js_get (d_portDeviceMaps r) portName \<noteq> Missing
      then Inl (Error (''Attempting to assign already mapped port: '' @ portName))
      else setupDevices_ports rest
             (r\<lparr> d_portDeviceMaps :=
                  js_put (d_portDeviceMaps r) portName
                    \<lparr> device = js_get (d_devices r) (mapInfo_deviceId info),
                      devicePortType = mapInfo_devicePortType info,
                      devicePort = mapInfo_devicePort info,
                      direction = mapInfo_direction info \<rparr> \<rparr>))"

definition setupDevices :: "(string \<Rightarrow> ctor option) \<Rightarrow> robot \<Rightarrow> js_error + robot" where
  "setupDevices builtin r =
     (case devices (d_config r) of
        None \<Rightarrow> Inl (TypeError ''Cannot read properties of undefined (reading length)'')
      | Some deviceList \<Rightarrow>
          (case setupDevices_devices builtin deviceList r of
             Inl e \<Rightarrow> Inl e
           | Inr r1 \<Rightarrow> setupDevices_ports (portMap (d_config r1)) r1))"

definition new_Robot :: "(string \<Rightarrow> ctor option) \<Rightarrow> robotConfig \<Rightarrow> js_error + robot" where
  "new_Robot builtin robotConfig =
     setupDevices builtin
       (setupInterfaces
          \<lparr> d_config = robotConfig, d_interfaces = [], d_devices = [],
            d_portDeviceMaps = [], d_ready = False, d_enabled = False, calls = [] \<rparr>)"

subsection \<open>Runtime operations\<close>

text \<open>
  \<open>'D-' + channel\<close> for a channel number: its decimal digits (the way JavaScript
  prints a non-negative integer below 10^21).
\<close>

fun string_of_nat :: "nat \<Rightarrow> string" where
  "string_of_nat n =
     (if n < 10 then [char_of (48 + n)]
      else string_of_nat (n div 10) @ [char_of (48 + n mod 10)])"

declare string_of_nat.simps [simp del]

text \<open>
  What a router method returns: nothing, or the value that a device call returned.
\<close>

datatype jsret = RetUndefined | RetDevice dev_call

text \<open>
  \<open>device.m(...)\<close> on the \<open>device\<close> field of a port entry. A device id that named no
  device leaves the field undefined, and one that named a member of \<open>Object.prototype\<close>
  leaves a value without the method: both calls throw.
\<close>

definition call_device ::
  "robot \<Rightarrow> device lookup \<Rightarrow> (device \<Rightarrow> dev_call) \<Rightarrow> js_error + (dev_call \<times> robot)" where
  "call_device r dev mk =
     (case dev of
        Own d \<Rightarrow> Inr (mk d, r\<lparr> calls := calls r @ [mk d] \<rparr>)
      | Inherited k \<Rightarrow> Inl (TypeError ''device method is not a function'')
      | Missing \<Rightarrow> Inl (TypeError ''Cannot read properties of undefined''))"

definition enable :: "robot \<Rightarrow> robot" where
  "enable r =
     (let r1 = r\<lparr> d_enabled := True \<rparr>
      in r1\<lparr> calls := calls r1 @ map (\<lambda>(deviceId, d). DevEnable d) (d_devices r1) \<rparr>)"

definition disable :: "robot \<Rightarrow> robot" where
  "disable r =
     (let r1 = r\<lparr> d_enabled := False \<rparr>
      in r1\<lparr> calls := calls r1 @ map (\<lambda>(deviceId, d). DevDisable d) (d_devices r1) \<rparr>)"

definition PinModes_defined :: "pin_mode \<Rightarrow> bool" where
  "PinModes_defined mode = (case mode of Unrecognized _ \<Rightarrow> False | _ \<Rightarrow> True)"

definition mode_text :: "pin_mode \<Rightarrow> string" where
  "mode_text mode =
     (case mode of
        INPUT \<Rightarrow> ''INPUT'' | INPUT_PULLUP \<Rightarrow> ''INPUT_PULLUP'' | OUTPUT \<Rightarrow> ''OUTPUT''
      | Unrecognized t \<Rightarrow> t)"

text \<open>Truthiness of an optional string field: undefined and the empty string are falsy.\<close>

definition truthy_str :: "string option \<Rightarrow> bool" where
  "truthy_str d = (case d of None \<Rightarrow> False | Some t \<Rightarrow> t \<noteq> [])"

definition configureDigitalPinMode ::
  "robot \<Rightarrow> nat \<Rightarrow> pin_mode \<Rightarrow> js_error + (jsret \<times> robot)" where
  "configureDigitalPinMode r channel mode =
     (let channelName = ''D-'' @ string_of_nat channel
      in if \<not> PinModes_defined mode
         then Inl (Error (''Invalid pin mode ('' @ mode_text mode @ '') specified''))
         else
           case js_get (d_portDeviceMaps r) channelName of
             Missing \<Rightarrow> Inl (Error (''Attempting to set mode on unmapped pin '' @ channelName))
           | Inherited k \<Rightarrow> Inl (TypeError ''Cannot read properties of undefined'')
           | Own deviceMapInfo \<Rightarrow>
               if truthy_str (direction deviceMapInfo)
               then Inl (Error (''Attempting to configure a non-configurable pin '' @ channelName))
               else
                 (case call_device r (device deviceMapInfo)
                         (\<lambda>d. DevConfigurePin d (devicePort deviceMapInfo) mode) of
                    Inl e \<Rightarrow> Inl e
                  | Inr (c, r1) \<Rightarrow> Inr (RetUndefined, r1)))"

text \<open>The body shared by \<open>writeDigital\<close> and \<open>writePWM\<close> after the name is built.\<close>

definition write_port :: "robot \<Rightarrow> string \<Rightarrow> jsval \<Rightarrow> js_error + (jsret \<times> robot)" where
  "write_port r channelName v =
     (case js_get (d_portDeviceMaps r) channelName of
        Missing \<Rightarrow> Inl (Error (''Attempting to write to unmapped port '' @ channelName))
      | Inherited k \<Rightarrow> Inl (TypeError ''Cannot read properties of undefined'')
      | Own deviceMapInfo \<Rightarrow>
          (case call_device r (device deviceMapInfo)
                  (\<lambda>d. DevWrite d (devicePortType deviceMapInfo) (devicePort deviceMapInfo) v) of
             Inl e \<Rightarrow> Inl e
           | Inr (c, r1) \<Rightarrow> Inr (RetUndefined, r1)))"

definition writeDigital :: "robot \<Rightarrow> nat \<Rightarrow> jsval \<Rightarrow> js_error + (jsret \<times> robot)" where
  "writeDigital r channel v =
     (if \<not> d_enabled r then Inr (RetUndefined, r)
      else write_port r (''D-'' @ string_of_nat channel) (JBool (truthy v)))"

definition Robot_writePWM :: "robot \<Rightarrow> nat \<Rightarrow> jsval \<Rightarrow> js_error + (jsret \<times> robot)" where
  "Robot_writePWM r channel v =
     (if \<not> d_enabled r then Inr (RetUndefined, r)
      else write_port r (''PWM-'' @ string_of_nat channel) v)"

text \<open>The body shared by \<open>readDigital\<close>, \<open>readAnalog\<close> and \<open>readBattMV\<close>.\<close>

definition read_port :: "robot \<Rightarrow> string \<Rightarrow> js_error + (jsret \<times> robot)" where
  "read_port r channelName =
     (case js_get (d_portDeviceMaps r) channelName of
        Missing \<Rightarrow> Inl (Error (''Attempting to read from unmapped port '' @ channelName))
      | Inherited k \<Rightarrow> Inl (TypeError ''Cannot read properties of undefined'')
      | Own deviceMapInfo \<Rightarrow>
          (case call_device r (device deviceMapInfo)
                  (\<lambda>d. DevRead d (devicePortType deviceMapInfo) (devicePort deviceMapInfo)) of
             Inl e \<Rightarrow> Inl e
           | Inr (c, r1) \<Rightarrow> Inr (RetDevice c, r1)))"

definition readDigital :: "robot \<Rightarrow> nat \<Rightarrow> js_error + (jsret \<times> robot)" where
  "readDigital r channel = read_port r (''D-'' @ string_of_nat channel)"

definition readAnalog :: "robot \<Rightarrow> nat \<Rightarrow> js_error + (jsret \<times> robot)" where
  "readAnalog r channel = read_port r (''A-'' @ string_of_nat channel)"

definition readBattMV :: "robot \<Rightarrow> js_error + (jsret \<times> robot)" where
  "readBattMV r = read_port r ''batt''"

subsection \<open>The port list\<close>

text \<open>\<open>str.split(c)\<close> for a one-character separator.\<close>

fun split_on :: "char \<Rightarrow> string \<Rightarrow> string list" where
  "split_on c [] = [[]]"
| "split_on c (x # xs) =
     (if x = c then [] # split_on c xs
      else (case split_on c xs of
              [] \<Rightarrow> [[x]]
            | p # ps \<Rightarrow> (x # p) # ps))"

definition is_digit :: "char \<Rightarrow> bool" where
  "is_digit c = (48 \<le> (of_char c :: nat) \<and> (of_char c :: nat) \<le> 57)"

definition is_space :: "char \<Rightarrow> bool" where
  "is_space c = ((of_char c :: nat) \<in> {9, 10, 11, 12, 13, 32})"

definition digits_value :: "string \<Rightarrow> int" where
  "digits_value ds = foldl (\<lambda>a c. 10 * a + (int (of_char c) - 48)) 0 ds"

text \<open>
  \<open>parseInt(str, 10)\<close> on an ASCII string: leading white space, an optional sign, then
  the longest run of digits; \<open>None\<close> stands for NaN.
\<close>

definition parseInt10 :: "string \<Rightarrow> int option" where
  "parseInt10 str =
     (let t = dropWhile is_space str;
          (sgn, u) = (case t of
                        c # rest \<Rightarrow> if c = CHR ''-'' then (- 1, rest)
                                    else if c = CHR ''+'' then (1, rest)
                                    else (1, t)
                      | [] \<Rightarrow> (1, t));
          ds = takeWhile is_digit u
      in if ds = [] then None else Some (sgn * digits_value ds))"

text \<open>A port descriptor; the \<open>direction\<close> key is absent where the source does not set it.\<close>

record port_descriptor =
  channel :: int
  descriptor_direction :: "string option"

record port_list =
  digital :: "port_descriptor list"
  analog :: "port_descriptor list"
  pwm :: "port_descriptor list"

text \<open>
  The loop of \<open>getPortList\<close> over the own keys of \<open>d_portDeviceMaps\<close>. \<open>both\<close> is
  \<open>Constants.PortDirections.BOTH\<close> (constants.js is not among the sources).
\<close>

fun getPortList_loop :: "string \<Rightarrow> port_entry js_object \<Rightarrow> port_list \<Rightarrow> port_list" where
  "getPortList_loop both [] portList = portList"
| "getPortList_loop both ((portName, pData) # rest) portList =
     (let portNameSplit = split_on CHR ''-'' portName
      in if length portNameSplit < 2 then getPortList_loop both rest portList
         else
           let pType = portNameSplit ! 0
           in case parseInt10 (portNameSplit ! 1) of
                None \<Rightarrow> getPortList_loop both rest portList
              | Some pChannel \<Rightarrow>
                  getPortList_loop both rest
                    (if pType = ''D'' then
                       portList\<lparr> digital := digital portList @
                         [\<lparr> channel = pChannel,
                            descriptor_direction =
                              Some (if truthy_str (direction pData)
                                    then the (direction pData) else both) \<rparr>] \<rparr>
                     else if pType = ''A'' then
                       portList\<lparr> analog := analog portList @
                         [\<lparr> channel = pChannel, descriptor_direction = None \<rparr>] \<rparr>
                     else if pType = ''PWM'' then
                       portList\<lparr> pwm := pwm portList @
                         [\<lparr> channel = pChannel, descriptor_direction = None \<rparr>] \<rparr>
                     else portList))"

definition getPortList :: "string \<Rightarrow> robot \<Rightarrow> port_list \<times> robot" where
  "getPortList both r =
     (getPortList_loop both (d_portDeviceMaps r) \<lparr> digital = [], analog = [], pwm = [] \<rparr>, r)"

section \<open>Reference definitions and concrete inputs\<close>

definition img :: "byte list" where
  "img = [0, 0, 0, 5, 9, 1, 44, 0, 0, 0, 0, 0, 0, 0, 0, 46, 224, 0, 0, 0, 0, 0, 0]"

definition zeros :: "byte list" where "zeros = replicate 23 0"

definition pending_board :: board where
  "pending_board =
     (new_board 20)\<lparr> d_lastBuf := Some zeros, d_outBuf := Some (zeros[18 := 1]),
                     d_hasNewData := True, timeouts := [25] \<rparr>"



text \<open>
  The spec's mode bits of a pin-mode nibble: input 0b01, input with pull-up 0b10,
  output 0b00; to compare \<open>configurePin\<close> with.
\<close>

definition mode_bits :: "pin_mode \<Rightarrow> int" where
  "mode_bits mode = (case mode of INPUT \<Rightarrow> 1 | INPUT_PULLUP \<Rightarrow> 2 | OUTPUT \<Rightarrow> 0 | Unrecognized _ \<Rightarrow> 0)"

definition polled_ab :: board where
  "polled_ab = (new_board 20)\<lparr> d_lastBuf := Some (replicate 23 171), d_outBuf := Some (replicate 23 171) \<rparr>"

definition board_dev :: device where
  "board_dev = Device ''PololuAstarBoard'' ''board'' (Own ''i2c-1'') ''addr''"

definition config1 :: robotConfig where
  "config1 =
     \<lparr> interfaces = Some [\<lparr> iface_type = ''I2C'', iface_id = ''i2c'', iface_implementation = ''i2c-1'' \<rparr>],
       devices = Some [\<lparr> spec_id = ''board'', spec_type = ''PololuAstarBoard'', spec_interfaceId = ''i2c'',
                         spec_implementation = None, spec_config = ''addr'' \<rparr>],
       portMap = [(''D-0'', \<lparr> mapInfo_deviceId = ''board'', mapInfo_devicePortType = ''digital'',
                              mapInfo_devicePort = 0, mapInfo_direction = None \<rparr>),
                  (''A-0'', \<lparr> mapInfo_deviceId = ''board'', mapInfo_devicePortType = ''analog'',
                              mapInfo_devicePort = 0, mapInfo_direction = Some ''in'' \<rparr>),
                  (''PWM-1'', \<lparr> mapInfo_deviceId = ''board'', mapInfo_devicePortType = ''pwm'',
                                mapInfo_devicePort = 1, mapInfo_direction = None \<rparr>),
                  (''batt'', \<lparr> mapInfo_deviceId = ''board'', mapInfo_devicePortType = ''batt'',
                               mapInfo_devicePort = 0, mapInfo_direction = None \<rparr>)] \<rparr>"

definition robot1 :: robot where
  "robot1 =
     \<lparr> d_config = config1,
       d_interfaces = [(''i2c'', ''i2c-1'')],
       d_devices = [(''board'', board_dev)],
       d_portDeviceMaps =
         [(''D-0'', \<lparr> device = Own board_dev, devicePortType = ''digital'', devicePort = 0,
                     direction = None \<rparr>),
          (''A-0'', \<lparr> device = Own board_dev, devicePortType = ''analog'', devicePort = 0,
                     direction = Some ''in'' \<rparr>),
          (''PWM-1'', \<lparr> device = Own board_dev, devicePortType = ''pwm'', devicePort = 1,
                       direction = None \<rparr>),
          (''batt'', \<lparr> device = Own board_dev, devicePortType = ''batt'', devicePort = 0,
                      direction = None \<rparr>)],
       d_ready = False, d_enabled = False, calls = [] \<rparr>"

definition config0 :: robotConfig where
  "config0 =
     \<lparr> interfaces = Some [\<lparr> iface_type = ''I2C'', iface_id = ''i2c'', iface_implementation = ''i2c-1'' \<rparr>],
       devices = Some [\<lparr> spec_id = ''board'', spec_type = ''PololuAstarBoard'', spec_interfaceId = ''i2c'',
                         spec_implementation = None, spec_config = ''addr'' \<rparr>],
       portMap = [(''D-0'', \<lparr> mapInfo_deviceId = ''board'', mapInfo_devicePortType = ''digital'',
                              mapInfo_devicePort = 0, mapInfo_direction = None \<rparr>),
                  (''D-0'', \<lparr> mapInfo_deviceId = ''board'', mapInfo_devicePortType = ''digital'',
                              mapInfo_devicePort = 1, mapInfo_direction = None \<rparr>)] \<rparr>"

definition builtin0 :: "string \<Rightarrow> ctor option" where
  "builtin0 t = (if t = ''PololuAstarBoard'' then Some ''PololuAstarBoard'' else None)"

section \<open>Bit-level facts about the JavaScript operators\<close>

lemma stb31: "- 2147483648 \<le> (n::int) \<Longrightarrow> n < 2147483648 \<Longrightarrow> signed_take_bit 31 n = n"
  by (simp add: signed_take_bit_int_eq_self)

lemma to_int32_JNum: "- 2147483648 \<le> n \<Longrightarrow> n < 2147483648 \<Longrightarrow> to_int32 (JNum n) = n"
  by (simp add: to_int32_def signed_take_bit_int_eq_self)

lemma uint_byte_range: "0 \<le> uint (b::byte) \<and> uint b < 256"
  using uint_lt2p[of b] by simp

lemma to_int32_byte: "to_int32 (JNum (uint (b::byte))) = uint b"
proof -
  have "0 \<le> uint b" "uint b < 256" using uint_byte_range[of b] by auto
  then show ?thesis by (intro to_int32_JNum) linarith+
qed

lemma drop_bit_byte_range: "0 \<le> drop_bit k (uint (b::byte)) \<and> drop_bit k (uint b) < 256"
proof -
  have u: "0 \<le> uint b" "uint b < 256" using uint_byte_range[of b] by auto
  have d: "drop_bit k (uint b) = uint b div 2 ^ k" by (simp add: drop_bit_eq_div)
  have "uint b div 2 ^ k \<le> uint b div 1"
    using u by (intro zdiv_mono2) simp_all
  moreover have "0 \<le> uint b div 2 ^ k" using u by (simp add: pos_imp_zdiv_nonneg_iff)
  ultimately show ?thesis using u d by simp
qed

lemma byte_bit:
  assumes "k < 32"
  shows "js_and (js_sar (JNum (uint (b::byte))) k) (JNum 1) = JNum (if bit b k then 1 else 0)"
proof -
  have r: "0 \<le> drop_bit k (uint b)" "drop_bit k (uint b) < 256"
    using drop_bit_byte_range[of k b] by auto
  have a: "to_int32 (JNum (drop_bit k (uint b))) = drop_bit k (uint b)"
    using r by (intro to_int32_JNum) linarith+
  have b1: "to_int32 (JNum 1) = 1" by (intro to_int32_JNum) simp_all
  have "bit (uint b) k = bit b k" by (auto simp add: bit_uint_iff dest: bit_imp_le_length)
  then have "odd (drop_bit k (uint b)) = bit b k"
    by (simp add: bit_iff_odd_drop_bit)
  then have "drop_bit k (uint b) AND 1 = (if bit b k then 1 else 0)"
    by (simp add: and_one_eq mod_2_eq_odd)
  then show ?thesis using assms by (simp add: js_and_def js_sar_def to_int32_byte a b1)
qed

lemma byte_bit0: "js_and (JNum (uint (b::byte))) (JNum 1) = JNum (if bit b 0 then 1 else 0)"
proof -
  have b1: "to_int32 (JNum 1) = 1" by (intro to_int32_JNum) simp_all
  have "bit (uint b) 0 = bit b 0" by (simp add: bit_uint_iff)
  then have "odd (uint b) = bit b 0" by (simp add: bit_0)
  then have "uint b AND 1 = (if bit b 0 then 1 else 0)"
    by (simp add: and_one_eq mod_2_eq_odd)
  then show ?thesis by (simp add: js_and_def to_int32_byte b1)
qed

lemma be_word:
  "js_add (js_shl (JNum (uint (hi::byte))) 8) (JNum (uint (lo::byte))) = JNum (256 * uint hi + uint lo)"
proof -
  have h: "0 \<le> uint hi" "uint hi < 256" using uint_byte_range[of hi] by auto
  have "signed_take_bit 31 (uint hi * 256) = uint hi * 256"
    using h by (intro stb31) linarith+
  then show ?thesis by (simp add: js_add_def js_shl_def to_int32_byte push_bit_eq_mult)
qed

lemma loop_nth:
  "i < n \<Longrightarrow> foldl (\<lambda>a j. js_array_set a j (f j)) xs [0..<n] ! i = f i
     \<and> n \<le> length (foldl (\<lambda>a j. js_array_set a j (f j)) xs [0..<n])"
proof (induction n arbitrary: i)
  case 0 then show ?case by simp
next
  case (Suc n)
  let ?ys = "foldl (\<lambda>a j. js_array_set a j (f j)) xs [0..<n]"
  have len: "n \<le> length ?ys"
  proof (cases n)
    case 0 then show ?thesis by simp
  next
    case (Suc m) then show ?thesis using Suc.IH[of m] by simp
  qed
  show ?case
  proof (cases "i = n")
    case True
    then show ?thesis using len
      by (auto simp: js_array_set_def nth_append)
  next
    case False
    then have "i < n" using Suc.prems by simp
    then show ?thesis using Suc.IH[of i] len
      by (auto simp: js_array_set_def nth_append)
  qed
qed

section \<open>The poll decoder\<close>

lemma buf_get_in: "i < length buf \<Longrightarrow> buf_get buf i = JNum (uint (buf ! i))"
  by (simp add: buf_get_def)

lemma ainVal_be:
  "6 + 2 * i < length buf \<Longrightarrow> ainVal buf i = JNum (256 * uint (buf ! (5 + 2 * i)) + uint (buf ! (6 + 2 * i)))"
  by (simp add: ainVal_def Let_def buf_get_in be_word mult.commute)

lemma analogIn_poll:
  "analogIn (d_boardState (getBoardStatus s buf)) =
     foldl (\<lambda>a i. js_array_set a i (ainVal buf i)) (analogIn (d_boardState s)) [0..<5]"
  by (simp add: getBoardStatus_def Let_def)

lemma digitalIn_poll:
  "digitalIn (d_boardState (getBoardStatus s buf)) =
     foldl (\<lambda>d i. js_array_set d i (js_and (js_sar (buf_get buf 4) i) (JNum 1)))
       (digitalIn (d_boardState s)) [0..<6]"
  by (simp add: getBoardStatus_def Let_def)

lemma buttons_poll:
  "buttons (d_boardState (getBoardStatus s buf)) =
     (buttons (d_boardState s))
       \<lparr> buttonA := js_and (buf_get buf 3) (JNum 1),
         buttonB := js_and (js_sar (buf_get buf 3) 1) (JNum 1),
         buttonC := js_and (js_sar (buf_get buf 3) 2) (JNum 1) \<rparr>"
  by (simp add: getBoardStatus_def Let_def)

lemma battMV_poll:
  "battMV (d_boardState (getBoardStatus s buf)) =
     js_add (js_shl (buf_get buf 15) 8) (buf_get buf 16)"
  by (simp add: getBoardStatus_def Let_def)

text \<open>
  C6. For every 23-byte poll buffer, decoding sets buttonA, buttonB and buttonC from bits
  0, 1 and 2 of byte 3, the six digital inputs from bits 0 to 5 of byte 4, analogIn[i]
  from the big-endian unsigned 16-bit word at bytes 5+2i and 6+2i, and the battery
  millivolts from the big-endian word at bytes 15 and 16. The driver stores each bit as
  the number 1 or 0, which is what \<open>truthy\<close> reads as true or false. Byte 3 = 5 gives
  buttonA and buttonC set and buttonB clear; bytes 5 and 6 = 0x01 0x2C give
  analogIn[0] = 300.
\<close>

theorem getBoardStatus_decode:
  assumes len: "length buf = 23"
  shows "let st = d_boardState (getBoardStatus s buf) in
           buttonA (buttons st) = JNum (if bit (buf ! 3) 0 then 1 else 0) \<and>
           buttonB (buttons st) = JNum (if bit (buf ! 3) 1 then 1 else 0) \<and>
           buttonC (buttons st) = JNum (if bit (buf ! 3) 2 then 1 else 0) \<and>
           (\<forall>i<6. digitalIn st ! i = JNum (if bit (buf ! 4) i then 1 else 0)) \<and>
           (\<forall>i<5. analogIn st ! i =
                     JNum (256 * uint (buf ! (5 + 2 * i)) + uint (buf ! (6 + 2 * i)))) \<and>
           battMV st = JNum (256 * uint (buf ! 15) + uint (buf ! 16)) \<and>
           (buf ! 3 = 5 \<longrightarrow>
              truthy (buttonA (buttons st)) \<and> \<not> truthy (buttonB (buttons st)) \<and>
              truthy (buttonC (buttons st))) \<and>
           (buf ! 5 = 1 \<and> buf ! 6 = 44 \<longrightarrow> analogIn st ! 0 = JNum 300)"
proof -
  define st where "st = d_boardState (getBoardStatus s buf)"
  have b3: "buf_get buf 3 = JNum (uint (buf ! 3))" and b4: "buf_get buf 4 = JNum (uint (buf ! 4))"
    using len by (simp_all add: buf_get_in)
  have A: "buttonA (buttons st) = JNum (if bit (buf ! 3) 0 then 1 else 0)"
    unfolding st_def buttons_poll by (simp add: b3 byte_bit0)
  have B: "buttonB (buttons st) = JNum (if bit (buf ! 3) 1 then 1 else 0)"
    unfolding st_def buttons_poll by (simp add: b3 byte_bit)
  have C: "buttonC (buttons st) = JNum (if bit (buf ! 3) 2 then 1 else 0)"
    unfolding st_def buttons_poll by (simp add: b3 byte_bit)
  have D: "digitalIn st ! i = JNum (if bit (buf ! 4) i then 1 else 0)" if "i < 6" for i
  proof -
    have "digitalIn st ! i = js_and (js_sar (buf_get buf 4) i) (JNum 1)"
      unfolding st_def digitalIn_poll
      using loop_nth[of i 6 "\<lambda>i. js_and (js_sar (buf_get buf 4) i) (JNum 1)"] that by simp
    then show ?thesis using that by (simp add: b4 byte_bit)
  qed
  have E: "analogIn st ! i = JNum (256 * uint (buf ! (5 + 2 * i)) + uint (buf ! (6 + 2 * i)))"
    if "i < 5" for i
  proof -
    have "analogIn st ! i = ainVal buf i"
      unfolding st_def analogIn_poll using loop_nth[of i 5 "ainVal buf"] that by simp
    moreover have "6 + 2 * i < length buf" using that len by simp
    ultimately show ?thesis by (simp add: ainVal_be)
  qed
  have F: "battMV st = JNum (256 * uint (buf ! 15) + uint (buf ! 16))"
    unfolding st_def battMV_poll using len by (simp add: buf_get_in be_word)
  have G: "truthy (buttonA (buttons st)) \<and> \<not> truthy (buttonB (buttons st)) \<and>
           truthy (buttonC (buttons st))" if "buf ! 3 = 5"
    using A B C that by (simp add: bit_numeral_simps)
  have H: "analogIn st ! 0 = JNum 300" if "buf ! 5 = 1 \<and> buf ! 6 = 44"
    using E[of 0] that by simp
  show ?thesis
    unfolding Let_def st_def[symmetric] using A B C D E F G H by blast
qed

theorem getBoardStatus_decode_witness:
  "length img = 23 \<and> img ! 3 = 5 \<and> img ! 5 = 1 \<and> img ! 6 = 44 \<and>
   truthy (buttonA (buttons (d_boardState (getBoardStatus (new_board 20) img)))) \<and>
   \<not> truthy (buttonB (buttons (d_boardState (getBoardStatus (new_board 20) img)))) \<and>
   truthy (buttonC (buttons (d_boardState (getBoardStatus (new_board 20) img)))) \<and>
   digitalIn (d_boardState (getBoardStatus (new_board 20) img)) ! 3 = JNum 1 \<and>
   analogIn (d_boardState (getBoardStatus (new_board 20) img)) ! 0 = JNum 300 \<and>
   battMV (d_boardState (getBoardStatus (new_board 20) img)) = JNum 12000"
  using getBoardStatus_decode [of img "new_board 20"]
  by (simp add: img_def Let_def)

section \<open>The buffered write path\<close>











text \<open>
  C10. Every call of \<open>getBoardStatus\<close> sets \<open>d_outBuf\<close> (and \<open>d_lastBuf\<close>) to the
  block just read, whatever was pending; it leaves \<open>d_hasNewData\<close> and the pending
  timeout alone. So when a write was pending, the flush that follows a poll sends exactly
  the polled image: the buffered writes made before the poll are gone.
\<close>

theorem poll_discards_pending:
  "d_outBuf (getBoardStatus s buf) = Some buf \<and>
   d_lastBuf (getBoardStatus s buf) = Some buf \<and>
   d_hasNewData (getBoardStatus s buf) = d_hasNewData s \<and>
   timeouts (getBoardStatus s buf) = timeouts s \<and>
   (d_hasNewData s \<longrightarrow>
      map_sum id bus (flushWrite (getBoardStatus s buf)) =
        Inr (bus s @ [ReadSync (d_addr s) 0 23, WriteSync (d_addr s) 0 (Some buf)]))"
  by (simp add: getBoardStatus_def flushWrite_def Let_def)

text \<open>
  A driver with a pending write of 1 to register 18 is polled: the flush sends the polled
  image.
\<close>

theorem poll_discards_pending_witness:
  "d_hasNewData pending_board \<and>
   map_sum id bus (flushWrite (getBoardStatus pending_board img)) =
     Inr [ReadSync 20 0 23, WriteSync 20 0 (Some img)]"
  using poll_discards_pending [of pending_board img]
  by (simp add: pending_board_def new_board_def)

text \<open>
  C4, as the code has it. A flush of pending data makes one \<open>writeSync\<close> of the pending
  buffer at offset 0; afterwards the pending buffer is a copy of the last polled register
  image \<open>d_lastBuf\<close>, not of the image that was flushed.
\<close>

theorem flushWrite_resets_to_last_polled:
  assumes "d_hasNewData s" and "d_lastBuf s = Some lb"
  shows "flushWrite s =
           Inr (s\<lparr> bus := bus s @ [WriteSync (d_addr s) 0 (d_outBuf s)], d_outBuf := Some lb \<rparr>)"
  using assms by (simp add: flushWrite_def)

text \<open>
  The flush of a pending write of 1 to register 18 over a polled image of zeros.
\<close>

theorem flushWrite_resets_to_last_polled_witness:
  "d_hasNewData pending_board \<and> d_lastBuf pending_board = Some zeros \<and>
   flushWrite pending_board =
     Inr (pending_board\<lparr> bus := [WriteSync 20 0 (Some (zeros[18 := 1]))], d_outBuf := Some zeros \<rparr>)"
  using flushWrite_resets_to_last_polled [of pending_board zeros]
  by (simp add: pending_board_def new_board_def)

text \<open>
  C4 as stated fails. After poll, write, flush the pending buffer is the polled image,
  which differs from the flushed one at register 18; \<open>flushWrite\<close> never clears
  \<open>d_hasNewData\<close>, so the next buffered write schedules no timeout and nothing more
  reaches the bus.
\<close>

theorem flush_then_write_counterexample:
  "map_sum id d_outBuf (run (new_board 20) [Poll zeros, Write (WriteByte 18 1), Fire]) =
     Inr (Some zeros) \<and>
   map_sum id bus (run (new_board 20) [Poll zeros, Write (WriteByte 18 1), Fire]) =
     Inr [ReadSync 20 0 23, WriteSync 20 0 (Some (zeros[18 := 1]))] \<and>
   zeros[18 := 1] \<noteq> zeros \<and>
   map_sum id timeouts
       (run (new_board 20) [Poll zeros, Write (WriteByte 18 1), Fire, Write (WriteByte 18 2)]) =
     Inr [] \<and>
   map_sum id bus
       (run (new_board 20) [Poll zeros, Write (WriteByte 18 1), Fire, Write (WriteByte 18 2), Fire]) =
     Inr [ReadSync 20 0 23, WriteSync 20 0 (Some (zeros[18 := 1]))]"
  by code_simp

section \<open>The PWM word\<close>








section \<open>The pin-mode byte\<close>

lemma newSetting_value: "PinModes_defined mode \<Longrightarrow> newSetting mode = JNum (4 OR mode_bits mode)"
  by (cases mode) (simp_all add: newSetting_def mode_bits_def js_or_def PinModes_defined_def to_int32_JNum)

lemma nibble_small: "PinModes_defined mode \<Longrightarrow> 4 OR mode_bits mode \<in> {4, 5, 6}"
  by (cases mode) (simp_all add: mode_bits_def PinModes_defined_def)

lemma bit_small: "take_bit m (n::int) = n \<Longrightarrow> bit n k \<Longrightarrow> k < m"
  by (metis bit_take_bit_iff)

lemma even_byte:
  assumes "take_bit 4 (n::int) = n"
  shows "(push_bit 4 n AND 240) OR (x AND 15) = push_bit 4 n OR take_bit 4 x"
proof -
  have c: "(240::int) = push_bit 4 (mask 4)" "(15::int) = mask 4" by (simp_all add: mask_eq_exp_minus_1)
  show ?thesis unfolding c
    by (rule bit_eqI) (auto simp add: bit_simps dest: bit_small[OF assms])
qed

lemma odd_byte:
  assumes "take_bit 4 (n::int) = n" and "take_bit 8 (x::int) = x"
  shows "(x AND 240) OR (n AND 15) = push_bit 4 (drop_bit 4 x) OR n"
proof -
  have c: "(240::int) = push_bit 4 (mask 4)" "(15::int) = mask 4" by (simp_all add: mask_eq_exp_minus_1)
  show ?thesis unfolding c
    apply (rule bit_eqI) 
    apply (auto simp add: bit_simps dest: bit_small[OF assms(1)] bit_small[OF assms(2)])
    done
qed

lemma nib_high: "take_bit 4 (l::int) = l \<Longrightarrow> drop_bit 4 (push_bit 4 h OR l) = h"
  by (rule bit_eqI) (auto simp add: bit_simps dest: bit_small)

lemma nib_low: "take_bit 4 (push_bit 4 h OR (l::int)) = take_bit 4 l"
  by (rule bit_eqI) (auto simp add: bit_simps)

lemma outByte_value:
  assumes n: "n \<in> {4, 5, 6::int}"
  shows "outByte c (JNum n) (JNum (uint (b::byte))) =
           JNum (if even c then push_bit 4 n OR take_bit 4 (uint b)
                 else push_bit 4 (drop_bit 4 (uint b)) OR n)"
proof -
  have tn: "take_bit 4 n = n" using n by auto
  have tb: "take_bit 8 (uint b) = uint b" using uint_byte_range[of b] by (intro take_bit_int_eq_self) simp_all
  have nn: "to_int32 (JNum n) = n" using n by (intro to_int32_JNum) auto
  have k15: "to_int32 (JNum 15) = 15" and k240: "to_int32 (JNum 240) = 240"
    by (simp_all add: to_int32_JNum)
  have sh: "js_shl (JNum n) 4 = JNum (push_bit 4 n)"
    using n by (auto simp add: js_shl_def nn stb31)
  have i1: "to_int32 (JNum (push_bit 4 n)) = push_bit 4 n"
    using n by (intro to_int32_JNum) auto
  have r1: "0 \<le> push_bit 4 n AND 240" "push_bit 4 n AND 240 \<le> 240"
    by (simp_all add: AND_upper2')
  have r2: "0 \<le> uint b AND 15" "uint b AND 15 \<le> 15"
    by (simp_all add: AND_upper2')
  have r3: "0 \<le> uint b AND 240" "uint b AND 240 \<le> 240"
    by (simp_all add: AND_upper2')
  have r4: "0 \<le> n AND 15" "n AND 15 \<le> 15"
    using n by (auto simp add: AND_upper2')
  have t1: "to_int32 (JNum (push_bit 4 n AND 240)) = push_bit 4 n AND 240"
    using r1 by (intro to_int32_JNum) linarith+
  have t2: "to_int32 (JNum (uint b AND 15)) = uint b AND 15"
    using r2 by (intro to_int32_JNum) linarith+
  have t3: "to_int32 (JNum (uint b AND 240)) = uint b AND 240"
    using r3 by (intro to_int32_JNum) linarith+
  have t4: "to_int32 (JNum (n AND 15)) = n AND 15"
    using r4 by (intro to_int32_JNum) linarith+
  show ?thesis
  proof (cases "even c")
    case True
    then have "outByte c (JNum n) (JNum (uint b)) = JNum ((push_bit 4 n AND 240) OR (uint b AND 15))"
      by (simp add: outByte_def js_or_def js_and_def sh i1 k15 k240 to_int32_byte t1 t2 even_iff_mod_2_eq_zero)
    then show ?thesis using True even_byte[OF tn, of "uint b"] by simp
  next
    case False
    then have "outByte c (JNum n) (JNum (uint b)) = JNum ((uint b AND 240) OR (n AND 15))"
      by (simp add: outByte_def js_or_def js_and_def nn k15 k240 to_int32_byte t3 t4 even_iff_mod_2_eq_zero)
    then show ?thesis using False odd_byte[OF tn tb] by simp
  qed
qed

text \<open>
  C7. On a driver that holds a polled 23-byte image, for every channel \<open>c\<close> in 0..5
  and every recognized pin mode, \<open>configurePin\<close> makes one \<open>writeByteSync\<close> to config
  byte \<open>c div 2\<close>. The nibble \<open>4 OR mode_bits\<close> (5 for input, 6 for input with
  pull-up, 4 for output) is the high nibble of the byte written when \<open>c\<close> is even and
  the low nibble when \<open>c\<close> is odd; the other nibble is the one the last polled image
  has in that byte. For channel 0 the low nibble, which is channel 1's, is unchanged.
\<close>

theorem configurePin_nibbles:
  assumes "d_lastBuf s = Some lb" and "length lb = 23" and "c < 6" and "PinModes_defined mode"
  shows "let old = uint (lb ! (c div 2));
             nib = 4 OR mode_bits mode;
             out = (if even c then push_bit 4 nib OR take_bit 4 old
                    else push_bit 4 (drop_bit 4 old) OR nib)
         in configurePin s c mode =
              Inr (s\<lparr> bus := bus s @ [WriteByteSync (d_addr s) (c div 2) (JNum out)] \<rparr>) \<and>
            drop_bit 4 out = (if even c then nib else drop_bit 4 old) \<and>
            take_bit 4 out = (if even c then take_bit 4 old else nib) \<and>
            (mode = INPUT \<longrightarrow> nib = 5) \<and> (mode = INPUT_PULLUP \<longrightarrow> nib = 6) \<and>
            (mode = OUTPUT \<longrightarrow> nib = 4)"
proof -
  define old where "old = uint (lb ! (c div 2))"
  define nib where "nib = 4 OR mode_bits mode"
  define out where "out = (if even c then push_bit 4 nib OR take_bit 4 old
                           else push_bit 4 (drop_bit 4 old) OR nib)"
  have nib: "nib \<in> {4, 5, 6}" unfolding nib_def using assms(4) by (rule nibble_small)
  have tn: "take_bit 4 nib = nib" using nib by auto
  have idx: "c div 2 < length lb" using assms(2,3) by simp
  have A: "configurePin s c mode =
             Inr (s\<lparr> bus := bus s @ [WriteByteSync (d_addr s) (c div 2) (JNum out)] \<rparr>)"
    using assms(1) idx outByte_value[OF nib, of c "lb ! (c div 2)"]
    by (simp add: configurePin_def Let_def buf_get_in newSetting_value[OF assms(4)]
          nib_def[symmetric] out_def old_def)
  have B: "drop_bit 4 out = (if even c then nib else drop_bit 4 old)"
    using nib_high[of "take_bit 4 old" nib] nib_high[OF tn, of "drop_bit 4 old"]
    by (simp add: out_def)
  have C: "take_bit 4 out = (if even c then take_bit 4 old else nib)"
    using nib_low[of nib "take_bit 4 old"] nib_low[of "drop_bit 4 old" nib] tn
    by (simp add: out_def)
  have D: "(mode = INPUT \<longrightarrow> nib = 5) \<and> (mode = INPUT_PULLUP \<longrightarrow> nib = 6) \<and>
           (mode = OUTPUT \<longrightarrow> nib = 4)"
    by (simp add: nib_def mode_bits_def)
  show ?thesis
    unfolding Let_def old_def[symmetric] nib_def[symmetric] out_def[symmetric]
    using A B C D by blast
qed

text \<open>
  Channel 0 set to input over a polled byte 0xAB: the byte written is 0x5B.
\<close>

theorem configurePin_nibbles_witness:
  "d_lastBuf polled_ab = Some (replicate 23 171) \<and> (0::nat) < 6 \<and> PinModes_defined INPUT \<and>
   configurePin polled_ab 0 INPUT =
     Inr (polled_ab\<lparr> bus := [WriteByteSync 20 0 (JNum 91)] \<rparr>) \<and>
   take_bit 4 (91::int) = take_bit 4 171"
  using configurePin_nibbles [of polled_ab "replicate 23 171" 0 INPUT]
  by (simp add: polled_ab_def new_board_def PinModes_defined_def mode_bits_def Let_def)

section \<open>The port router\<close>









lemma new_Robot_config0:
  "new_Robot builtin0 config0 = Inl (Error ''Attempting to assign already mapped port: D-0'')"
  by code_simp



lemma D_not_inherited: "''D-'' @ t \<notin> set object_prototype_keys"
  and A_not_inherited: "''A-'' @ t \<notin> set object_prototype_keys"
  and PWM_not_inherited: "''PWM-'' @ t \<notin> set object_prototype_keys"
  and batt_not_inherited: "''batt'' \<notin> set object_prototype_keys"
  by (simp_all add: object_prototype_keys_def)

lemma js_get_unmapped:
  "map_of obj k = None \<Longrightarrow> k \<notin> set object_prototype_keys \<Longrightarrow> js_get obj k = Missing"
  by (simp add: js_get_def)

lemma string_of_nat_7: "string_of_nat 7 = ''7''"
  by code_simp

text \<open>
  C2. For every channel number \<open>n\<close>: if D-n has no entry in the port map then
  readDigital throws the unmapped-port error, configureDigitalPinMode with a recognized
  mode throws it, and writeDigital throws it when the router is enabled; if A-n has no
  entry readAnalog throws it; if PWM-n has no entry writePWM throws it when the router
  is enabled; if batt has no entry readBattMV throws it.
\<close>

theorem unmapped_port_throws:
  "(map_of (d_portDeviceMaps r) (''D-'' @ string_of_nat n) = None \<longrightarrow>
      readDigital r n =
        Inl (Error (''Attempting to read from unmapped port D-'' @ string_of_nat n)) \<and>
      (PinModes_defined mode \<longrightarrow>
         configureDigitalPinMode r n mode =
           Inl (Error (''Attempting to set mode on unmapped pin D-'' @ string_of_nat n))) \<and>
      (d_enabled r \<longrightarrow>
         writeDigital r n v =
           Inl (Error (''Attempting to write to unmapped port D-'' @ string_of_nat n)))) \<and>
   (map_of (d_portDeviceMaps r) (''A-'' @ string_of_nat n) = None \<longrightarrow>
      readAnalog r n =
        Inl (Error (''Attempting to read from unmapped port A-'' @ string_of_nat n))) \<and>
   (map_of (d_portDeviceMaps r) (''PWM-'' @ string_of_nat n) = None \<longrightarrow>
      (d_enabled r \<longrightarrow>
         Robot_writePWM r n v =
           Inl (Error (''Attempting to write to unmapped port PWM-'' @ string_of_nat n)))) \<and>
   (map_of (d_portDeviceMaps r) ''batt'' = None \<longrightarrow>
      readBattMV r = Inl (Error ''Attempting to read from unmapped port batt''))"
proof -
  have D: "js_get (d_portDeviceMaps r) (''D-'' @ string_of_nat n) = Missing"
    if "map_of (d_portDeviceMaps r) (''D-'' @ string_of_nat n) = None"
    using that D_not_inherited by (rule js_get_unmapped)
  have A: "js_get (d_portDeviceMaps r) (''A-'' @ string_of_nat n) = Missing"
    if "map_of (d_portDeviceMaps r) (''A-'' @ string_of_nat n) = None"
    using that A_not_inherited by (rule js_get_unmapped)
  have P: "js_get (d_portDeviceMaps r) (''PWM-'' @ string_of_nat n) = Missing"
    if "map_of (d_portDeviceMaps r) (''PWM-'' @ string_of_nat n) = None"
    using that PWM_not_inherited by (rule js_get_unmapped)
  have B: "js_get (d_portDeviceMaps r) ''batt'' = Missing"
    if "map_of (d_portDeviceMaps r) ''batt'' = None"
    using that batt_not_inherited by (rule js_get_unmapped)
  show ?thesis
    using D A P B
    by (simp add: readDigital_def readAnalog_def readBattMV_def read_port_def
          configureDigitalPinMode_def writeDigital_def Robot_writePWM_def write_port_def
          Let_def del: append.simps)
qed

text \<open>
  Channel 7 is unmapped in the four-port robot; batt is unmapped in one without ports.
\<close>

theorem unmapped_port_throws_witness:
  "map_of (d_portDeviceMaps robot1) ''D-7'' = None \<and> PinModes_defined OUTPUT \<and>
   map_of (d_portDeviceMaps robot1) ''A-7'' = None \<and>
   map_of (d_portDeviceMaps robot1) ''PWM-7'' = None \<and>
   map_of (d_portDeviceMaps (robot1\<lparr> d_portDeviceMaps := [] \<rparr>)) ''batt'' = None \<and>
   d_enabled (enable robot1) \<and>
   readDigital robot1 7 = Inl (Error ''Attempting to read from unmapped port D-7'') \<and>
   configureDigitalPinMode robot1 7 OUTPUT =
     Inl (Error ''Attempting to set mode on unmapped pin D-7'') \<and>
   readAnalog robot1 7 = Inl (Error ''Attempting to read from unmapped port A-7'') \<and>
   writeDigital (enable robot1) 7 (JBool True) =
     Inl (Error ''Attempting to write to unmapped port D-7'') \<and>
   Robot_writePWM (enable robot1) 7 (JNum 1) =
     Inl (Error ''Attempting to write to unmapped port PWM-7'') \<and>
   readBattMV (robot1\<lparr> d_portDeviceMaps := [] \<rparr>) =
     Inl (Error ''Attempting to read from unmapped port batt'')"
  using unmapped_port_throws [of robot1 7 OUTPUT "JBool True"]
    unmapped_port_throws [of "enable robot1" 7 OUTPUT "JBool True"]
    unmapped_port_throws [of "enable robot1" 7 OUTPUT "JNum 1"]
    unmapped_port_throws [of "robot1\<lparr> d_portDeviceMaps := [] \<rparr>" 7 OUTPUT "JNum 1"]
  by (simp add: robot1_def enable_def string_of_nat_7 PinModes_defined_def Let_def)

lemma read_port_flag:
  "read_port (r\<lparr> d_enabled := b \<rparr>) k =
     map_sum id (map_prod id (\<lambda>r'. r'\<lparr> d_enabled := b \<rparr>)) (read_port r k)"
  by (simp add: read_port_def call_device_def split: lookup.splits)

text \<open>
  C8. While the router is disabled, writeDigital and writePWM return undefined, call no
  device and leave the whole router state, the trace of device calls included, as it
  was. readDigital, readAnalog and readBattMV do not look at the flag: with the flag set
  to any value they return the same result and make the same device call as without.
\<close>

theorem disabled_writes_ignored:
  "(\<not> d_enabled r \<longrightarrow>
      writeDigital r n v = Inr (RetUndefined, r) \<and>
      Robot_writePWM r n v = Inr (RetUndefined, r)) \<and>
   readDigital (r\<lparr> d_enabled := b \<rparr>) n =
     map_sum id (map_prod id (\<lambda>r'. r'\<lparr> d_enabled := b \<rparr>)) (readDigital r n) \<and>
   readAnalog (r\<lparr> d_enabled := b \<rparr>) n =
     map_sum id (map_prod id (\<lambda>r'. r'\<lparr> d_enabled := b \<rparr>)) (readAnalog r n) \<and>
   readBattMV (r\<lparr> d_enabled := b \<rparr>) =
     map_sum id (map_prod id (\<lambda>r'. r'\<lparr> d_enabled := b \<rparr>)) (readBattMV r)"
  by (simp add: writeDigital_def Robot_writePWM_def readDigital_def readAnalog_def
        readBattMV_def read_port_flag)

text \<open>
  The freshly built robot is disabled; its writes to mapped ports do nothing.
\<close>

theorem disabled_writes_ignored_witness:
  "\<not> d_enabled robot1 \<and>
   writeDigital robot1 0 (JBool True) = Inr (RetUndefined, robot1) \<and>
   Robot_writePWM robot1 1 (JNum 1) = Inr (RetUndefined, robot1)"
  using disabled_writes_ignored [of robot1 0 "JBool True" False, THEN conjunct1]
    disabled_writes_ignored [of robot1 1 "JNum 1" False, THEN conjunct1]
  by (simp add: robot1_def)

text \<open>
  C9, at a port map where analog channel 0 is configured with direction "in".
  \<open>getPortList\<close> leaves the router unchanged and gives the digital entry its channel
  and the default direction, but the analog and the PWM entry carry the channel number
  only: the configured direction of A-0 is not in its descriptor.
\<close>

theorem getPortList_analog_without_direction:
  "getPortList ''both'' robot1 =
     (\<lparr> digital = [\<lparr> channel = 0, descriptor_direction = Some ''both'' \<rparr>],
        analog = [\<lparr> channel = 0, descriptor_direction = None \<rparr>],
        pwm = [\<lparr> channel = 1, descriptor_direction = None \<rparr>] \<rparr>, robot1) \<and>
   map_option direction (map_of (d_portDeviceMaps robot1) ''A-0'') = Some (Some ''in'')"
  by code_simp

end
